theory Spec2Isabelle
  imports Main "HOL-Library.Word" "HOL-Library.Multiset"
begin

section \<open>The execution cookie of the docker driver (api/agent/drivers/docker/cookie.go)\<close>

text \<open>
  The cookie is the per-task object that builds the container launch configuration
  (the \<open>configure*\<close> steps) and then drives the runtime through
  ValidateImage, PullImage, CreateContainer, Freeze, Unfreeze and Close.

  Conventions of the embedding:
  \<^item> Go's \<open>uint64\<close> is \<open>64 word\<close>, so \<open>*\<close> on it wraps around at \<open>2 ^ 64\<close>.
  \<^item> A field of Go type \<open>int64\<close> holds the two's-complement value of its 64 bits as an
    \<open>int\<close>; the conversion \<open>int64(x)\<close> of an unsigned \<open>x\<close> is therefore \<open>sint x\<close>.
  \<^item> A Go pointer that may be nil is an \<open>option\<close>; a Go string is a \<open>string\<close>, the
    empty string being the zero value; a slice is a list (nil is \<open>[]\<close>); a map that is
    only written by key is a partial function (nil is \<open>Map.empty\<close>).
  \<^item> Every method takes the cookie and returns the cookie it leaves behind, together
    with the calls it made on the collaborators (runtime client, image cache, pool,
    network allocator, puller), in order. What a collaborator answers is an argument.
  \<^item> Logging has no effect on the cookie and is left out, except \<open>log.Fatal\<close>, which
    ends the process.
\<close>

subsection \<open>Data\<close>

type_synonym uint64 = "64 word"

definition int64 :: "uint64 \<Rightarrow> int" where
  "int64 x = sint x"

definition maxInt64 :: int where
  "maxInt64 = 2 ^ 63 - 1"

datatype error =
    ErrNoSuchImage
  | ErrImageWithVolume
  | ErrCallTimeoutServerBusy
  | OtherError string

record LoggerConfig =
  URL :: string
  Tags :: "(string \<times> string) list"

text \<open>
  Modelled from the spec: the task description (the interface drivers.ContainerTask is
  declared outside cookie.go). Each field is the answer of the method of the same name.
  The limits are unsigned 64-bit, as the parameter \<open>value *uint64\<close> of configureULimit
  and the conversions \<open>int64(...)\<close> of the source show; EnvVars is a Go map.
\<close>

record ContainerTask =
  task_Id :: string
  task_Image :: string
  task_LoggerConfig :: LoggerConfig
  task_Memory :: uint64
  task_FsSize :: uint64
  task_PIDs :: uint64
  task_OpenFiles :: "uint64 option"
  task_LockedMemory :: "uint64 option"
  task_PendingSignals :: "uint64 option"
  task_MessageQueue :: "uint64 option"
  task_TmpFsSize :: uint64
  task_UDSDockerPath :: string
  task_UDSDockerDest :: string
  task_Volumes :: "(string \<times> string) list"
  task_CPUs :: uint64
  task_WorkDir :: string
  task_DisableNet :: bool
  task_Command :: string
  task_EnvVars :: "string \<rightharpoonup> string"
  task_Auther :: bool

record AuthConfig =
  Username :: string
  Password :: string
  ServerAddress :: string

record driver_conf =
  ContainerLabelTag :: string
  EnableReadOnlyRootFs :: bool
  MaxTmpFsInodes :: uint64
  DisableUnprivilegedContainers :: bool
  ImageEnableVolume :: bool

text \<open>
  The driver as the cookie reads it. \<open>pool\<close> and \<open>imgCache\<close> say whether the pointer
  of that name is non-nil; the objects behind them are collaborators.
\<close>

record DockerDriver =
  conf :: driver_conf
  instanceId :: string
  hostname :: string
  pool :: bool
  imgCache :: bool
  auths :: "string \<rightharpoonup> AuthConfig"

record Ulimit =
  Name :: string
  Soft :: int
  Hard :: int

record LogConfig =
  Type :: string
  Config :: "string \<rightharpoonup> string"

record container_Config =
  Hostname :: string
  User :: string
  Env :: "string list"
  Cmd :: "string list"
  Volumes :: "string set"
  WorkingDir :: string
  Labels :: "string \<rightharpoonup> string"

record container_HostConfig =
  LogConf :: LogConfig
  Memory :: int
  MemorySwap :: int
  KernelMemory :: int
  MemorySwappiness :: "int option"
  StorageOpt :: "string \<rightharpoonup> string"
  PidsLimit :: "int option"
  Ulimits :: "Ulimit list"
  Tmpfs :: "string \<rightharpoonup> string"
  Binds :: "string list"
  CPUQuota :: int
  CPUPeriod :: int
  NetworkMode :: string
  CapDrop :: "string list"
  SecurityOpt :: "string list"

record CachedImage =
  ID :: string
  ParentID :: string
  RepoTags :: "string list"
  Size :: uint64

record cookie =
  poolId :: string
  netId :: string
  opts :: container_Config
  hostOpts :: container_HostConfig
  task :: ContainerTask
  drv :: DockerDriver
  imgReg :: string
  cookie_image :: "CachedImage option"
  containerCreated :: bool

text \<open>
  The calls a cookie makes on its collaborators. RemoveContainer carries the ID and the
  Force and RemoveVolumes options; ContainerCreate the two option bundles and the name.
\<close>

datatype call =
    AllocPoolId
  | AllocNetwork
  | FreePoolId string
  | FreeNetwork string
  | ImageInspectWithRaw string
  | MarkBusy CachedImage
  | MarkFree CachedImage
  | Update CachedImage
  | DockerAuth string
  | PullerPullImage AuthConfig string
  | ContainerCreate container_Config container_HostConfig string
  | RemoveContainer string bool bool
  | PauseContainer string
  | UnpauseContainer string

text \<open>
  What the configuration steps take from outside the cookie: the image-reference parser
  drivers.ParseImage (declared outside cookie.go), the entries of the EnvVars map in the
  order in which \<open>range\<close> yields them (Go leaves that order unspecified), and the answers
  of the pool allocator and of the network allocator.
\<close>

record configure_world =
  ParseImage :: "string \<Rightarrow> string \<times> string \<times> string"
  range_EnvVars :: "(string \<times> string) list"
  ans_AllocPoolId :: "string \<times> error option"
  ans_AllocNetwork :: string

text \<open>\<open>range\<close> over a map yields every entry once, in some order.\<close>

definition range_yields :: "(string \<rightharpoonup> string) \<Rightarrow> (string \<times> string) list \<Rightarrow> bool" where
  "range_yields m es = (distinct (map fst es) \<and> map_of es = m)"

subsection \<open>Formatting\<close>

text \<open>\<open>%v\<close> and \<open>%d\<close> of an unsigned integer: its decimal digits.\<close>

function decimal :: "nat \<Rightarrow> string" where
  "decimal n =
     (if n < 10 then [char_of (48 + n)]
      else decimal (n div 10) @ [char_of (48 + n mod 10)])"
  by pat_completeness auto
termination
  by (relation "measure id") auto

declare decimal.simps [simp del]

definition FnDockerUser :: string where
  "FnDockerUser = decimal 1000 @ '':'' @ decimal 1000"

text \<open>
  strings.Fields: the maximal runs of non-space characters. The model knows the ASCII
  white space (tab, line feed, vertical tab, form feed, carriage return, space).
\<close>

definition isSpace :: "char \<Rightarrow> bool" where
  "isSpace ch = (ch \<in> set [CHR 0x09, CHR 0x0A, CHR 0x0B, CHR 0x0C, CHR 0x0D, CHR 0x20])"

fun Fields_from :: "string \<Rightarrow> string \<Rightarrow> string list" where
  "Fields_from cur [] = (if cur = [] then [] else [cur])"
| "Fields_from cur (ch # s) =
     (if isSpace ch then (if cur = [] then Fields_from [] s else cur # Fields_from [] s)
      else Fields_from (cur @ [ch]) s)"

definition Fields :: "string \<Rightarrow> string list" where
  "Fields s = Fields_from [] s"

text \<open>strings.Join.\<close>

fun Join :: "string list \<Rightarrow> string \<Rightarrow> string" where
  "Join [] sep = []"
| "Join [x] sep = x"
| "Join (x # y # ys) sep = x @ sep @ Join (y # ys) sep"

subsection \<open>The configuration steps\<close>

definition configureMem :: "cookie \<Rightarrow> cookie" where
  "configureMem c =
     (if task_Memory (task c) = 0 then c
      else
        let mem = int64 (task_Memory (task c)) in
        c\<lparr>hostOpts := (hostOpts c)\<lparr>Memory := mem, MemorySwap := mem,
             KernelMemory := mem, MemorySwappiness := Some 0\<rparr>\<rparr>)"

definition configureCPU :: "cookie \<Rightarrow> cookie" where
  "configureCPU c =
     (if task_CPUs (task c) = 0 then c
      else
        let quota = int64 (task_CPUs (task c) * 100);
            period = 100000
        in c\<lparr>hostOpts := (hostOpts c)\<lparr>CPUQuota := quota, CPUPeriod := period\<rparr>\<rparr>)"

definition configureULimit :: "string \<Rightarrow> uint64 option \<Rightarrow> cookie \<Rightarrow> cookie" where
  "configureULimit name val c =
     (case val of
        None \<Rightarrow> c
      | Some v \<Rightarrow>
          let value64 = int64 v in
          if value64 < 0 then c
          else c\<lparr>hostOpts := (hostOpts c)\<lparr>Ulimits :=
                   Ulimits (hostOpts c) @ [\<lparr>Name = name, Soft = value64, Hard = value64\<rparr>]\<rparr>\<rparr>)"

definition configureULimits :: "cookie \<Rightarrow> cookie" where
  "configureULimits c =
     (let c1 = configureULimit ''nofile'' (task_OpenFiles (task c)) c;
          c2 = configureULimit ''memlock'' (task_LockedMemory (task c1)) c1;
          c3 = configureULimit ''sigpending'' (task_PendingSignals (task c2)) c2
      in configureULimit ''msgqueue'' (task_MessageQueue (task c3)) c3)"

definition configureImage :: "configure_world \<Rightarrow> cookie \<Rightarrow> cookie" where
  "configureImage w c = c\<lparr>imgReg := fst (ParseImage w (task_Image (task c)))\<rparr>"

text \<open>
  Modelled from the spec: the two label keys (a classifier label and an instance label)
  are constants declared outside cookie.go.
\<close>

definition FnAgentClassifierLabel :: string where
  "FnAgentClassifierLabel = ''fn-agent-classifier''"

definition FnAgentInstanceLabel :: string where
  "FnAgentInstanceLabel = ''fn-agent-instance''"

definition configureLabels :: "cookie \<Rightarrow> cookie" where
  "configureLabels c =
     (if ContainerLabelTag (conf (drv c)) = '''' then c
      else c\<lparr>opts := (opts c)\<lparr>Labels :=
             (Labels (opts c))
               (FnAgentClassifierLabel \<mapsto> ContainerLabelTag (conf (drv c)),
                FnAgentInstanceLabel \<mapsto> instanceId (drv c))\<rparr>\<rparr>)"

definition configureLogger :: "cookie \<Rightarrow> cookie" where
  "configureLogger c =
     (let lc = task_LoggerConfig (task c) in
      if URL lc = '''' then
        c\<lparr>hostOpts := (hostOpts c)\<lparr>LogConf := \<lparr>Type = ''none'', Config = Map.empty\<rparr>\<rparr>\<rparr>
      else
        let base = [''syslog-address'' \<mapsto> URL lc, ''syslog-facility'' \<mapsto> ''user'',
                    ''syslog-format'' \<mapsto> ''rfc5424''];
            tags = map (\<lambda>(name, val). name @ ''='' @ val) (Tags lc);
            cfg = (if length tags > 0 then base(''tag'' \<mapsto> Join tags '','') else base)
        in c\<lparr>hostOpts := (hostOpts c)\<lparr>LogConf := \<lparr>Type = ''syslog'', Config = cfg\<rparr>\<rparr>\<rparr>)"

definition configureFsSize :: "cookie \<Rightarrow> cookie" where
  "configureFsSize c =
     (if task_FsSize (task c) = 0 then c
      else
        let opt = decimal (unat (task_FsSize (task c))) @ ''M'' in
        c\<lparr>hostOpts := (hostOpts c)\<lparr>StorageOpt := (StorageOpt (hostOpts c))(''size'' \<mapsto> opt)\<rparr>\<rparr>)"

definition configurePIDs :: "cookie \<Rightarrow> cookie" where
  "configurePIDs c =
     (let pids = task_PIDs (task c) in
      if pids = 0 then c
      else
        let pids64 = int64 pids in
        c\<lparr>hostOpts := (hostOpts c)\<lparr>PidsLimit := Some pids64\<rparr>\<rparr>)"

definition configureTmpFs :: "cookie \<Rightarrow> cookie" where
  "configureTmpFs c =
     (if task_TmpFsSize (task c) = 0 \<and> \<not> EnableReadOnlyRootFs (conf (drv c)) then c
      else
        let tmpFsOption =
              (if task_TmpFsSize (task c) \<noteq> 0 then
                 (if MaxTmpFsInodes (conf (drv c)) \<noteq> 0 then
                    ''size='' @ decimal (unat (task_TmpFsSize (task c))) @ ''m,nr_inodes=''
                      @ decimal (unat (MaxTmpFsInodes (conf (drv c))))
                  else ''size='' @ decimal (unat (task_TmpFsSize (task c))) @ ''m'')
               else '''')
        in c\<lparr>hostOpts := (hostOpts c)\<lparr>Tmpfs := (Tmpfs (hostOpts c))(''/tmp'' \<mapsto> tmpFsOption)\<rparr>\<rparr>)"

definition configureIOFS :: "cookie \<Rightarrow> cookie" where
  "configureIOFS c =
     (let path = task_UDSDockerPath (task c) in
      if path = '''' then c
      else
        let bind = path @ '':'' @ task_UDSDockerDest (task c) in
        c\<lparr>hostOpts := (hostOpts c)\<lparr>Binds := Binds (hostOpts c) @ [bind]\<rparr>\<rparr>)"

text \<open>The body of the loop of configureVolumes, for one mapping.\<close>

definition addVolume :: "string \<times> string \<Rightarrow> cookie \<Rightarrow> cookie" where
  "addVolume mapping c =
     (let hostDir = fst mapping;
          containerDir = snd mapping;
          mapn = hostDir @ '':'' @ containerDir
      in c\<lparr>opts := (opts c)\<lparr>Volumes := insert containerDir (Volumes (opts c))\<rparr>,
            hostOpts := (hostOpts c)\<lparr>Binds := Binds (hostOpts c) @ [mapn]\<rparr>\<rparr>)"

definition configureVolumes :: "cookie \<Rightarrow> cookie" where
  "configureVolumes c =
     (if length (task_Volumes (task c)) = 0 then c
      else foldl (\<lambda>c' mapping. addVolume mapping c') c (task_Volumes (task c)))"

definition configureWorkDir :: "cookie \<Rightarrow> cookie" where
  "configureWorkDir c =
     (let wd = task_WorkDir (task c) in
      if wd = '''' then c else c\<lparr>opts := (opts c)\<lparr>WorkingDir := wd\<rparr>\<rparr>)"

definition configureNetwork :: "configure_world \<Rightarrow> cookie \<Rightarrow> cookie \<times> call list" where
  "configureNetwork w c =
     (if NetworkMode (hostOpts c) \<noteq> '''' then (c, [])
      else if task_DisableNet (task c) then
        (c\<lparr>hostOpts := (hostOpts c)\<lparr>NetworkMode := ''none''\<rparr>\<rparr>, [])
      else if pool (drv c) \<and> fst (ans_AllocPoolId w) \<noteq> '''' then
        (let id = fst (ans_AllocPoolId w) in
         (c\<lparr>hostOpts := (hostOpts c)\<lparr>NetworkMode := ''container:'' @ id\<rparr>, poolId := id\<rparr>,
          [AllocPoolId]))
      else
        let calls = (if pool (drv c) then [AllocPoolId] else []) @ [AllocNetwork];
            id = ans_AllocNetwork w
        in if id \<noteq> '''' then
             (c\<lparr>hostOpts := (hostOpts c)\<lparr>NetworkMode := id\<rparr>, netId := id\<rparr>, calls)
           else (c, calls))"

definition configureHostname :: "cookie \<Rightarrow> cookie" where
  "configureHostname c =
     (if NetworkMode (hostOpts c) \<noteq> '''' then c
      else c\<lparr>opts := (opts c)\<lparr>Hostname := hostname (drv c)\<rparr>\<rparr>)"

definition configureCmd :: "cookie \<Rightarrow> cookie" where
  "configureCmd c =
     (if task_Command (task c) = '''' then c
      else
        let cmd = Fields (task_Command (task c)) in
        c\<lparr>opts := (opts c)\<lparr>Cmd := cmd\<rparr>\<rparr>)"

definition configureEnv :: "configure_world \<Rightarrow> cookie \<Rightarrow> cookie" where
  "configureEnv w c =
     (if task_EnvVars (task c) = Map.empty then c
      else c\<lparr>opts := (opts c)\<lparr>Env :=
             Env (opts c) @ map (\<lambda>(name, val). name @ ''='' @ val) (range_EnvVars w)\<rparr>\<rparr>)"

definition configureSecurity :: "cookie \<Rightarrow> cookie" where
  "configureSecurity c =
     (if DisableUnprivilegedContainers (conf (drv c)) then c
      else c\<lparr>opts := (opts c)\<lparr>User := FnDockerUser\<rparr>,
             hostOpts := (hostOpts c)\<lparr>CapDrop := [''all''],
               SecurityOpt := [''no-new-privileges:true'']\<rparr>\<rparr>)"

text \<open>
  Modelled from the spec: the order in which the driver runs the steps when it builds a
  cookie (the function doing so, CreateCookie, is outside cookie.go). The spec gives "a
  fixed, ordered sequence": image, labels, logging, memory, ephemeral storage size,
  process count, ulimits, tmpfs, socket bind mount, volumes, CPU, working directory,
  network, hostname, command, environment, security.
\<close>

definition configure :: "configure_world \<Rightarrow> cookie \<Rightarrow> cookie \<times> call list" where
  "configure w c =
     (let c1 = configureImage w c;
          c2 = configureLabels c1;
          c3 = configureLogger c2;
          c4 = configureMem c3;
          c5 = configureFsSize c4;
          c6 = configurePIDs c5;
          c7 = configureULimits c6;
          c8 = configureTmpFs c7;
          c9 = configureIOFS c8;
          c10 = configureVolumes c9;
          c11 = configureCPU c10;
          c12 = configureWorkDir c11;
          (c13, calls) = configureNetwork w c12;
          c14 = configureHostname c13;
          c15 = configureCmd c14;
          c16 = configureEnv w c15;
          c17 = configureSecurity c16
      in (c17, calls))"

subsection \<open>The lifecycle methods\<close>

text \<open>
  What ImageInspectWithRaw hands back when it succeeds, as far as ValidateImage reads
  it: the image's Config may be nil, its Volumes is a map used as a set, Size is an int64.
\<close>

record ImageConfig =
  img_Volumes :: "string set"

record ImageInspect =
  insp_ID :: string
  insp_Parent :: string
  insp_RepoTags :: "string list"
  insp_Size :: int
  insp_Config :: "ImageConfig option"

text \<open>A method either returns, or ends the process through \<open>log.Fatal\<close>.\<close>

datatype 'a outcome = Fatal | Returned 'a

definition Close :: "error option \<Rightarrow> cookie \<Rightarrow> error option \<times> cookie \<times> call list" where
  "Close ans_remove c =
     (let (err, calls1) =
            (if containerCreated c
             then (ans_remove, [RemoveContainer (task_Id (task c)) True True])
             else (None, []));
          calls2 = (if poolId c \<noteq> '''' \<and> pool (drv c) then [FreePoolId (poolId c)] else []);
          calls3 = (if netId c \<noteq> '''' then [FreeNetwork (netId c)] else []);
          calls4 = (case cookie_image c of
                      Some img \<Rightarrow> if imgCache (drv c) then [MarkFree img] else []
                    | None \<Rightarrow> [])
      in (err, c, calls1 @ calls2 @ calls3 @ calls4))"

definition Freeze :: "error option \<Rightarrow> cookie \<Rightarrow> error option \<times> cookie \<times> call list" where
  "Freeze ans_pause c = (ans_pause, c, [PauseContainer (task_Id (task c))])"

definition Unfreeze :: "error option \<Rightarrow> cookie \<Rightarrow> error option \<times> cookie \<times> call list" where
  "Unfreeze ans_unpause c = (ans_unpause, c, [UnpauseContainer (task_Id (task c))])"

text \<open>
  Modelled from the spec: findRegistryConfig (declared outside cookie.go) "looks up
  static per-registry credentials by parsed registry"; no entry gives the zero value.
\<close>

definition findRegistryConfig :: "string \<Rightarrow> (string \<rightharpoonup> AuthConfig) \<Rightarrow> AuthConfig" where
  "findRegistryConfig reg configs =
     (case configs reg of
        Some a \<Rightarrow> a
      | None \<Rightarrow> \<lparr>Username = '''', Password = '''', ServerAddress = ''''\<rparr>)"

text \<open>
  authImage. \<open>ans_auth\<close> is what the task's DockerAuth answers, asked only of a task
  that implements Auther.
\<close>

definition authImage ::
  "AuthConfig option \<times> error option \<Rightarrow> cookie \<Rightarrow> (AuthConfig \<times> error option) \<times> call list" where
  "authImage ans_auth c =
     (let config = findRegistryConfig (imgReg c) (auths (drv c)) in
      if task_Auther (task c) then
        (case snd ans_auth of
           Some err \<Rightarrow> ((config, Some err), [DockerAuth (task_Image (task c))])
         | None \<Rightarrow>
             (case fst ans_auth of
                Some authConfig \<Rightarrow> ((authConfig, None), [DockerAuth (task_Image (task c))])
              | None \<Rightarrow> ((config, None), [DockerAuth (task_Image (task c))])))
      else ((config, None), []))"

definition ValidateImage ::
  "error + ImageInspect \<Rightarrow> cookie \<Rightarrow> (bool \<times> error option) \<times> cookie \<times> call list" where
  "ValidateImage ans_inspect c =
     (if cookie_image c \<noteq> None then ((False, None), c, [])
      else
        (case ans_inspect of
           Inl e \<Rightarrow>
             if e = ErrNoSuchImage
             then ((True, None), c, [ImageInspectWithRaw (task_Image (task c))])
             else ((False, Some e), c, [ImageInspectWithRaw (task_Image (task c))])
         | Inr img \<Rightarrow>
             let err = (if \<not> ImageEnableVolume (conf (drv c)) \<and>
                           (case insp_Config img of
                              None \<Rightarrow> False
                            | Some cfg \<Rightarrow> img_Volumes cfg \<noteq> {})
                        then Some ErrImageWithVolume else None);
                 ci = \<lparr>ID = insp_ID img, ParentID = insp_Parent img,
                       RepoTags = insp_RepoTags img, Size = word_of_int (insp_Size img)\<rparr>;
                 c' = c\<lparr>cookie_image := Some ci\<rparr>;
                 cache = (if imgCache (drv c')
                          then (if err = Some ErrImageWithVolume then [Update ci]
                                else [MarkBusy ci])
                          else [])
             in ((False, err), c', ImageInspectWithRaw (task_Image (task c)) # cache)))"

text \<open>
  PullImage. \<open>ans_pull\<close> is the error the puller sends on the channel it returns (nil
  for a pull that succeeded).
\<close>

definition PullImage ::
  "AuthConfig option \<times> error option \<Rightarrow> error option \<Rightarrow> cookie
     \<Rightarrow> error option \<times> cookie \<times> call list" where
  "PullImage ans_auth ans_pull c =
     (if cookie_image c \<noteq> None then (None, c, [])
      else
        (case authImage ans_auth c of
           ((cfg, Some err), calls) \<Rightarrow> (Some err, c, calls)
         | ((cfg, None), calls) \<Rightarrow>
             (ans_pull, c, calls @ [PullerPullImage cfg (task_Image (task c))])))"

text \<open>
  CreateContainer. \<open>ans_create\<close> is the error of the runtime's ContainerCreate (nil when
  the runtime created the container).
\<close>

definition CreateContainer ::
  "error option \<Rightarrow> cookie \<Rightarrow> error option outcome \<times> cookie \<times> call list" where
  "CreateContainer ans_create c =
     (if cookie_image c = None then (Fatal, c, [])
      else if containerCreated c then (Returned None, c, [])
      else
        let calls = [ContainerCreate (opts c) (hostOpts c) (task_Id (task c))];
            c' = c\<lparr>containerCreated := True\<rparr>
        in if ans_create = Some ErrNoSuchImage
           then (Returned (Some ErrCallTimeoutServerBusy), c', calls)
           else if ans_create \<noteq> None then (Returned ans_create, c', calls)
           else (Returned None, c', calls))"

subsection \<open>Sequences of lifecycle calls\<close>

text \<open>
  One call of a lifecycle method on the cookie, with what the collaborators answer to it.
  Run is not among them: it hands the task to the driver and does not touch the cookie.
\<close>

datatype op =
    OpValidateImage "error + ImageInspect"
  | OpPullImage "AuthConfig option \<times> error option" "error option"
  | OpCreateContainer "error option"
  | OpFreeze "error option"
  | OpUnfreeze "error option"
  | OpClose "error option"

text \<open>
  The cookie after one call and the calls made on the collaborators; \<open>None\<close> when the
  process ended in the call.
\<close>

fun exec :: "op \<Rightarrow> cookie \<Rightarrow> (cookie \<times> call list) option" where
  "exec (OpValidateImage a) c = Some (snd (ValidateImage a c))"
| "exec (OpPullImage a p) c = Some (snd (PullImage a p c))"
| "exec (OpCreateContainer a) c =
     (case CreateContainer a c of
        (Fatal, _, _) \<Rightarrow> None
      | (Returned _, c', calls) \<Rightarrow> Some (c', calls))"
| "exec (OpFreeze a) c = Some (snd (Freeze a c))"
| "exec (OpUnfreeze a) c = Some (snd (Unfreeze a c))"
| "exec (OpClose a) c = Some (snd (Close a c))"

fun execs :: "op list \<Rightarrow> cookie \<times> call list \<Rightarrow> (cookie \<times> call list) option" where
  "execs [] s = Some s"
| "execs (x # xs) (c, tr) =
     (case exec x c of
        None \<Rightarrow> None
      | Some (c', calls) \<Rightarrow> execs xs (c', tr @ calls))"

text \<open>
  Modelled from the spec: the cookie the driver hands to the configuration steps
  (CreateCookie is outside cookie.go): no grant, no image record, no container, and
  empty option bundles.
\<close>

definition new_cookie :: "DockerDriver \<Rightarrow> ContainerTask \<Rightarrow> cookie" where
  "new_cookie d t =
     \<lparr>poolId = '''', netId = '''',
      opts = \<lparr>Hostname = '''', User = '''', Env = [], Cmd = [], Volumes = {},
              WorkingDir = '''', Labels = Map.empty\<rparr>,
      hostOpts = \<lparr>LogConf = \<lparr>Type = '''', Config = Map.empty\<rparr>, Memory = 0,
                  MemorySwap = 0, KernelMemory = 0, MemorySwappiness = None,
                  StorageOpt = Map.empty, PidsLimit = None, Ulimits = [],
                  Tmpfs = Map.empty, Binds = [], CPUQuota = 0, CPUPeriod = 0,
                  NetworkMode = '''', CapDrop = [], SecurityOpt = []\<rparr>,
      task = t, drv = d, imgReg = '''', cookie_image = None, containerCreated = False\<rparr>"

subsection \<open>What the spec expects of one ulimit\<close>

text \<open>
  In the spec's words: a present value is converted to signed 64-bit; a value that
  exceeds the maximum signed 64-bit integer is skipped; soft and hard limits are equal.
\<close>

definition spec_ulimit :: "string \<Rightarrow> uint64 option \<Rightarrow> Ulimit list" where
  "spec_ulimit name val =
     (case val of
        None \<Rightarrow> []
      | Some v \<Rightarrow>
          if uint v > maxInt64 then []
          else [\<lparr>Name = name, Soft = uint v, Hard = uint v\<rparr>])"

subsection \<open>A task, a driver and their answers, for concrete runs\<close>

text \<open>The task of the spec's scenario: image busy:1, memory 512, 800 milli-CPUs.\<close>

definition busy_task :: ContainerTask where
  "busy_task =
     \<lparr>task_Id = ''call-1'', task_Image = ''busy:1'',
      task_LoggerConfig = \<lparr>URL = '''', Tags = []\<rparr>,
      task_Memory = 512, task_FsSize = 0, task_PIDs = 0,
      task_OpenFiles = Some 1024, task_LockedMemory = Some (2 ^ 63),
      task_PendingSignals = None, task_MessageQueue = Some 7,
      task_TmpFsSize = 0, task_UDSDockerPath = '''', task_UDSDockerDest = '''',
      task_Volumes = [], task_CPUs = 800, task_WorkDir = '''', task_DisableNet = False,
      task_Command = '''',
      task_EnvVars = map_of [(''A'', ''1''), (''B'', ''2'')],
      task_Auther = False\<rparr>"

definition plain_conf :: driver_conf where
  "plain_conf =
     \<lparr>ContainerLabelTag = '''', EnableReadOnlyRootFs = False, MaxTmpFsInodes = 0,
      DisableUnprivilegedContainers = False, ImageEnableVolume = False\<rparr>"

text \<open>A driver with an image cache and a pool, and one with neither.\<close>

definition pooled_drv :: DockerDriver where
  "pooled_drv =
     \<lparr>conf = plain_conf, instanceId = ''i-1'', hostname = ''runner-1'', pool = True,
      imgCache = True, auths = Map.empty\<rparr>"

definition bare_drv :: DockerDriver where
  "bare_drv = pooled_drv\<lparr>pool := False, imgCache := False\<rparr>"

definition calm_world :: configure_world where
  "calm_world =
     \<lparr>ParseImage = (\<lambda>image. ('''', image, ''latest'')),
      range_EnvVars = [(''A'', ''1''), (''B'', ''2'')],
      ans_AllocPoolId = (''pool-7'', None),
      ans_AllocNetwork = ''net-3''\<rparr>"

definition busy_inspect :: ImageInspect where
  "busy_inspect =
     \<lparr>insp_ID = ''sha256:b1'', insp_Parent = '''', insp_RepoTags = [''busy:1''],
      insp_Size = 4096, insp_Config = Some \<lparr>img_Volumes = {}\<rparr>\<rparr>"

definition volume_inspect :: ImageInspect where
  "volume_inspect = busy_inspect\<lparr>insp_Config := Some \<lparr>img_Volumes = {''/data''}\<rparr>\<rparr>"

definition inspected_cookie :: cookie where
  "inspected_cookie =
     fst (snd (ValidateImage (Inr busy_inspect)
       (fst (configureNetwork calm_world (new_cookie pooled_drv busy_task)))))"

definition busy_record :: CachedImage where
  "busy_record = \<lparr>ID = ''sha256:b1'', ParentID = '''', RepoTags = [''busy:1''], Size = 4096\<rparr>"

subsection \<open>Parts of the configuration sequence, and what the steps leave alone\<close>

text \<open>The cookie on which the network step runs, and the one on which the environment step runs.\<close>

definition before_network :: "configure_world \<Rightarrow> cookie \<Rightarrow> cookie" where
  "before_network w c =
     configureWorkDir (configureCPU (configureVolumes (configureIOFS (configureTmpFs
       (configureULimits (configurePIDs (configureFsSize (configureMem (configureLogger
         (configureLabels (configureImage w c)))))))))))"

definition before_env :: "configure_world \<Rightarrow> cookie \<Rightarrow> cookie" where
  "before_env w c =
     configureCmd (configureHostname (fst (configureNetwork w (before_network w c))))"

text \<open>
  Two cookies agree on what the network and hostname steps read and write; two cookies
  agree on what the environment step reads and writes; a cookie with its list of
  environment entries emptied.
\<close>

definition frame :: "cookie \<Rightarrow> cookie \<Rightarrow> bool" where
  "frame c c' =
     (task c' = task c \<and> drv c' = drv c \<and>
      NetworkMode (hostOpts c') = NetworkMode (hostOpts c) \<and>
      Hostname (opts c') = Hostname (opts c))"

definition same_env :: "cookie \<Rightarrow> cookie \<Rightarrow> bool" where
  "same_env c c' = (task c' = task c \<and> Env (opts c') = Env (opts c))"

definition without_Env :: "cookie \<Rightarrow> cookie" where
  "without_Env c = c\<lparr>opts := (opts c)\<lparr>Env := []\<rparr>\<rparr>"

subsection \<open>Descriptions used by the lifecycle properties\<close>

text \<open>
  Along a sequence of lifecycle calls started on \<open>c0\<close>: the option bundles and the task
  are those of \<open>c0\<close>, and a set container-created flag means that the runtime's create
  call for them is among the calls made.
\<close>

definition create_issued :: "cookie \<Rightarrow> cookie \<Rightarrow> call list \<Rightarrow> bool" where
  "create_issued c0 c tr =
     (opts c = opts c0 \<and> hostOpts c = hostOpts c0 \<and> task c = task c0 \<and>
      (containerCreated c \<longrightarrow>
         ContainerCreate (opts c0) (hostOpts c0) (task_Id (task c0)) \<in> set tr))"

text \<open>
  The releases a cookie owes: its pool grant, its network grant, its claim on the cached
  image record.
\<close>

definition release_calls :: "cookie \<Rightarrow> call list" where
  "release_calls c =
     (if poolId c \<noteq> '''' \<and> pool (drv c) then [FreePoolId (poolId c)] else []) @
     (if netId c \<noteq> '''' then [FreeNetwork (netId c)] else []) @
     (case cookie_image c of
        Some img \<Rightarrow> if imgCache (drv c) then [MarkFree img] else []
      | None \<Rightarrow> [])"

text \<open>The image record that ValidateImage builds from an inspection.\<close>

definition captured :: "ImageInspect \<Rightarrow> CachedImage" where
  "captured img =
     \<lparr>ID = insp_ID img, ParentID = insp_Parent img, RepoTags = insp_RepoTags img,
      Size = word_of_int (insp_Size img)\<rparr>"

text \<open>
  The cookie after a CreateContainer to which the runtime answered with an error, and a
  cookie that holds a network grant instead of a pool grant.
\<close>

definition failed_create_cookie :: cookie where
  "failed_create_cookie =
     fst (snd (CreateContainer (Some (OtherError ''no space left on device'')) inspected_cookie))"

definition networked_cookie :: cookie where
  "networked_cookie =
     fst (snd (ValidateImage (Inr busy_inspect)
       (fst (configureNetwork calm_world (new_cookie (pooled_drv\<lparr>pool := False\<rparr>) busy_task)))))"

section \<open>Properties\<close>

subsection \<open>Conversion of an unsigned 64-bit value to int64\<close>

lemma sint64_cases:
  fixes v :: uint64
  shows "sint v = (if uint v < 2 ^ 63 then uint v else uint v - 2 ^ 64)"
proof -
  have b: "0 \<le> uint v" "uint v < 2 ^ 64"
    using uint_lt2p [of v] by simp_all
  have "sint v = (uint v + 2 ^ 63) mod 2 ^ 64 - 2 ^ 63"
    by (simp add: sint_uint signed_take_bit_eq_take_bit_shift take_bit_eq_mod)
  moreover have "(uint v + 2 ^ 63) mod 2 ^ 64 =
      (if uint v < 2 ^ 63 then uint v + 2 ^ 63 else uint v - 2 ^ 63)"
  proof (cases "uint v < 2 ^ 63")
    case True
    then show ?thesis using b by simp
  next
    case False
    have "uint v + 2 ^ 63 = (uint v - 2 ^ 63) + 2 ^ 64"
      by simp
    then have "(uint v + 2 ^ 63) mod 2 ^ 64 = (uint v - 2 ^ 63 + 2 ^ 64) mod 2 ^ 64"
      by (rule arg_cong)
    also have "\<dots> = (uint v - 2 ^ 63) mod 2 ^ 64"
      by (rule mod_add_self2)
    also have "\<dots> = uint v - 2 ^ 63"
      using False b by simp
    finally show ?thesis using False by simp
  qed
  ultimately show ?thesis by simp
qed

lemma int64_neg_iff: "int64 v < 0 \<longleftrightarrow> uint v > maxInt64"
  using uint_lt2p [of v] by (simp add: int64_def maxInt64_def sint64_cases)

lemma int64_in_range: "uint v \<le> maxInt64 \<Longrightarrow> int64 v = uint v"
  by (simp add: int64_def maxInt64_def sint64_cases)

lemma int64_times_100:
  fixes v :: uint64
  assumes "uint v * 100 \<le> maxInt64"
  shows "int64 (v * 100) = uint v * 100"
proof -
  have "uint (v * 100) = (uint v * 100) mod 2 ^ 64"
    by (simp add: uint_word_ariths)
  also have "\<dots> = uint v * 100"
    using assms by (simp add: maxInt64_def)
  finally have "uint (v * 100) = uint v * 100" .
  with assms show ?thesis by (simp add: int64_in_range)
qed

subsection \<open>Memory\<close>

text \<open>
  C6, as amended. With a memory limit of 0 the memory step leaves the cookie as it is.
  With a limit \<open>m > 0\<close> it sets memory, memory+swap and kernel memory to the same value
  \<open>int64(m)\<close> and swappiness to 0; that value is the limit itself when the limit is at
  most the maximum signed 64-bit integer.
\<close>

theorem configureMem_fields:
  "(let m = task_Memory (task c); h = hostOpts (configureMem c) in
      (m = 0 \<longrightarrow> configureMem c = c) \<and>
      (m \<noteq> 0 \<longrightarrow> Memory h = int64 m \<and> MemorySwap h = int64 m \<and> KernelMemory h = int64 m \<and>
         MemorySwappiness h = Some 0) \<and>
      (m \<noteq> 0 \<and> uint m \<le> maxInt64 \<longrightarrow> Memory h = uint m \<and> MemorySwap h = uint m \<and>
         KernelMemory h = uint m \<and> MemorySwappiness h = Some 0))"
  by (simp add: configureMem_def Let_def int64_in_range)

text \<open>The scenario of the spec: memory 512 gives 512, 512, 512 and swappiness 0.\<close>

theorem configureMem_fields_witness:
  "Memory (hostOpts (configureMem (new_cookie bare_drv busy_task))) = 512 \<and>
   MemorySwap (hostOpts (configureMem (new_cookie bare_drv busy_task))) = 512 \<and>
   KernelMemory (hostOpts (configureMem (new_cookie bare_drv busy_task))) = 512 \<and>
   MemorySwappiness (hostOpts (configureMem (new_cookie bare_drv busy_task))) = Some 0"
  using configureMem_fields [of "new_cookie bare_drv busy_task"]
  by (simp add: Let_def new_cookie_def busy_task_def maxInt64_def)

text \<open>
  C6 as stated fails for a limit above the maximum signed 64-bit integer: with the limit
  \<open>2 ^ 63\<close> the memory field holds \<open>- 2 ^ 63\<close>, not the limit.
\<close>

theorem configureMem_wraps:
  "task_Memory (busy_task\<lparr>task_Memory := 2 ^ 63\<rparr>) \<noteq> 0 \<and>
   uint (task_Memory (busy_task\<lparr>task_Memory := 2 ^ 63\<rparr>)) = 9223372036854775808 \<and>
   Memory (hostOpts (configureMem (new_cookie bare_drv (busy_task\<lparr>task_Memory := 2 ^ 63\<rparr>))))
     = - 9223372036854775808"
  by (simp add: configureMem_def new_cookie_def int64_def)

subsection \<open>CPU\<close>

text \<open>
  C7, as amended. With a CPU share of 0 the CPU step leaves the cookie as it is. With a
  share \<open>V > 0\<close> it sets the period to 100000 and the quota to \<open>int64(V * 100)\<close>, the
  product taken in unsigned 64-bit arithmetic; the quota is exactly \<open>V \<times> 100\<close> when that
  number is at most the maximum signed 64-bit integer.
\<close>

theorem configureCPU_fields:
  "(let V = task_CPUs (task c); h = hostOpts (configureCPU c) in
      (V = 0 \<longrightarrow> configureCPU c = c) \<and>
      (V \<noteq> 0 \<longrightarrow> CPUQuota h = int64 (V * 100) \<and> CPUPeriod h = 100000) \<and>
      (V \<noteq> 0 \<and> uint V * 100 \<le> maxInt64 \<longrightarrow>
         CPUQuota h = uint V * 100 \<and> CPUPeriod h = 100000))"
  by (simp add: configureCPU_def Let_def int64_times_100)

text \<open>The scenario of the spec: 800 milli-CPUs give quota 80000 and period 100000.\<close>

theorem configureCPU_fields_witness:
  "CPUQuota (hostOpts (configureCPU (new_cookie bare_drv busy_task))) = 80000 \<and>
   CPUPeriod (hostOpts (configureCPU (new_cookie bare_drv busy_task))) = 100000"
  using configureCPU_fields [of "new_cookie bare_drv busy_task"]
  by (simp add: Let_def new_cookie_def busy_task_def maxInt64_def)

text \<open>
  C7 as stated fails where the product leaves the 64 bits: the share \<open>2 ^ 63\<close> is
  positive, \<open>V \<times> 100\<close> is 922337203685477580800, and the quota is 0.
\<close>

theorem configureCPU_wraps:
  "task_CPUs (busy_task\<lparr>task_CPUs := 2 ^ 63\<rparr>) \<noteq> 0 \<and>
   uint (task_CPUs (busy_task\<lparr>task_CPUs := 2 ^ 63\<rparr>)) * 100 = 922337203685477580800 \<and>
   CPUQuota (hostOpts (configureCPU (new_cookie bare_drv (busy_task\<lparr>task_CPUs := 2 ^ 63\<rparr>)))) = 0"
  by (simp add: configureCPU_def new_cookie_def int64_def)

subsection \<open>Ulimits\<close>

lemma configureULimit_spec:
  "configureULimit name val c =
     c\<lparr>hostOpts := (hostOpts c)\<lparr>Ulimits := Ulimits (hostOpts c) @ spec_ulimit name val\<rparr>\<rparr>"
  by (cases val)
    (simp_all add: configureULimit_def spec_ulimit_def Let_def int64_neg_iff int64_in_range)

text \<open>
  C8. The ulimit step changes nothing but the list of ulimits, to which it appends, in the
  order open-files, locked-memory, pending-signals, message-queue, what the spec expects
  of each of the four: nothing for an absent value or one above the maximum signed 64-bit
  integer, and otherwise an entry whose soft and hard limits are both the value. The step
  is a total function: it has no failing outcome.
\<close>

theorem configureULimits_spec:
  "configureULimits c =
     c\<lparr>hostOpts := (hostOpts c)\<lparr>Ulimits := Ulimits (hostOpts c)
        @ spec_ulimit ''nofile'' (task_OpenFiles (task c))
        @ spec_ulimit ''memlock'' (task_LockedMemory (task c))
        @ spec_ulimit ''sigpending'' (task_PendingSignals (task c))
        @ spec_ulimit ''msgqueue'' (task_MessageQueue (task c))\<rparr>\<rparr>"
  by (simp add: configureULimits_def Let_def configureULimit_spec)

text \<open>
  A task with open-files 1024, locked-memory \<open>2 ^ 63\<close>, no pending-signals limit and
  message-queue 7: the locked-memory limit is left out, the two others are applied.
\<close>

theorem configureULimits_spec_witness:
  "Ulimits (hostOpts (configureULimits (new_cookie bare_drv busy_task))) =
     [\<lparr>Name = ''nofile'', Soft = 1024, Hard = 1024\<rparr>,
      \<lparr>Name = ''msgqueue'', Soft = 7, Hard = 7\<rparr>]"
  using configureULimits_spec [of "new_cookie bare_drv busy_task"]
  by (simp add: new_cookie_def busy_task_def spec_ulimit_def maxInt64_def)

subsection \<open>What the steps leave alone\<close>

lemma addVolumes_frame:
  "task (foldl (\<lambda>c' mapping. addVolume mapping c') c vs) = task c \<and>
   drv (foldl (\<lambda>c' mapping. addVolume mapping c') c vs) = drv c \<and>
   NetworkMode (hostOpts (foldl (\<lambda>c' mapping. addVolume mapping c') c vs)) =
     NetworkMode (hostOpts c) \<and>
   Hostname (opts (foldl (\<lambda>c' mapping. addVolume mapping c') c vs)) = Hostname (opts c) \<and>
   Env (opts (foldl (\<lambda>c' mapping. addVolume mapping c') c vs)) = Env (opts c)"
  by (induction vs arbitrary: c) (simp_all add: addVolume_def Let_def)

lemma frame_refl: "frame c c"
  by (simp add: frame_def)

lemma frame_steps:
  "frame c (configureImage w x) = frame c x" "frame c (configureLabels x) = frame c x"
  "frame c (configureLogger x) = frame c x" "frame c (configureMem x) = frame c x"
  "frame c (configureFsSize x) = frame c x" "frame c (configurePIDs x) = frame c x"
  "frame c (configureTmpFs x) = frame c x" "frame c (configureIOFS x) = frame c x"
  "frame c (configureCPU x) = frame c x" "frame c (configureWorkDir x) = frame c x"
  "frame c (configureCmd x) = frame c x" "frame c (configureEnv w x) = frame c x"
  "frame c (configureSecurity x) = frame c x"
  by (simp_all add: frame_def configureImage_def configureLabels_def configureLogger_def
      configureMem_def configureFsSize_def configurePIDs_def configureTmpFs_def
      configureIOFS_def configureCPU_def configureWorkDir_def configureCmd_def
      configureEnv_def configureSecurity_def Let_def)

lemma frame_ULimit: "frame c (configureULimit name val x) = frame c x"
  by (cases val) (simp_all add: frame_def configureULimit_def Let_def)

lemma frame_ULimits: "frame c (configureULimits x) = frame c x"
  by (simp add: configureULimits_def Let_def frame_ULimit)

lemma frame_Volumes: "frame c (configureVolumes x) = frame c x"
  by (simp add: frame_def configureVolumes_def addVolumes_frame)

lemma frame_before_network: "frame c (before_network w c)"
  by (simp add: before_network_def frame_steps frame_ULimits frame_Volumes frame_refl)

lemma frame_Network:
  "frame c x \<Longrightarrow> frame (fst (configureNetwork w c)) (fst (configureNetwork w x))"
  by (simp add: frame_def configureNetwork_def Let_def)

lemma frame_Hostname:
  "frame c x \<Longrightarrow> frame (configureHostname c) (configureHostname x)"
  by (simp add: frame_def configureHostname_def)

lemma configure_split:
  "fst (configure w c) =
     configureSecurity (configureEnv w (configureCmd (configureHostname
       (fst (configureNetwork w (before_network w c))))))"
  by (simp add: configure_def before_network_def Let_def split_beta)

lemma configure_fst: "fst (configure w c) = configureSecurity (configureEnv w (before_env w c))"
  by (simp add: configure_split before_env_def)

lemma configure_snd: "snd (configure w c) = snd (configureNetwork w (before_network w c))"
  by (simp add: configure_def before_network_def Let_def split_beta)

text \<open>
  Network mode and hostname after the whole sequence are those that the network step
  followed by the hostname step give on the cookie the sequence started from.
\<close>

lemma configure_frame:
  "frame (configureHostname (fst (configureNetwork w c))) (fst (configure w c))"
proof -
  have "frame c (before_network w c)"
    by (rule frame_before_network)
  then have "frame (configureHostname (fst (configureNetwork w c)))
      (configureHostname (fst (configureNetwork w (before_network w c))))"
    by (intro frame_Hostname frame_Network)
  then show ?thesis
    by (simp add: configure_split frame_steps)
qed

lemma same_env_refl: "same_env c c"
  by (simp add: same_env_def)

lemma same_env_steps:
  "same_env c (configureImage w x) = same_env c x" "same_env c (configureLabels x) = same_env c x"
  "same_env c (configureLogger x) = same_env c x" "same_env c (configureMem x) = same_env c x"
  "same_env c (configureFsSize x) = same_env c x" "same_env c (configurePIDs x) = same_env c x"
  "same_env c (configureTmpFs x) = same_env c x" "same_env c (configureIOFS x) = same_env c x"
  "same_env c (configureCPU x) = same_env c x" "same_env c (configureWorkDir x) = same_env c x"
  "same_env c (configureCmd x) = same_env c x" "same_env c (configureHostname x) = same_env c x"
  "same_env c (configureSecurity x) = same_env c x"
  "same_env c (fst (configureNetwork w x)) = same_env c x"
  by (simp_all add: same_env_def configureImage_def configureLabels_def configureLogger_def
      configureMem_def configureFsSize_def configurePIDs_def configureTmpFs_def
      configureIOFS_def configureCPU_def configureWorkDir_def configureCmd_def
      configureHostname_def configureSecurity_def configureNetwork_def Let_def)

lemma same_env_ULimit: "same_env c (configureULimit name val x) = same_env c x"
  by (cases val) (simp_all add: same_env_def configureULimit_def Let_def)

lemma same_env_ULimits: "same_env c (configureULimits x) = same_env c x"
  by (simp add: configureULimits_def Let_def same_env_ULimit)

lemma same_env_Volumes: "same_env c (configureVolumes x) = same_env c x"
  by (simp add: same_env_def configureVolumes_def addVolumes_frame)

lemma same_env_before_env: "same_env c (before_env w c)"
  by (simp add: before_env_def before_network_def same_env_steps same_env_ULimits
      same_env_Volumes same_env_refl)

text \<open>The environment entries after the whole sequence.\<close>

lemma configure_Env:
  "Env (opts (fst (configure w c))) =
     (if task_EnvVars (task c) = Map.empty then Env (opts c)
      else Env (opts c) @ map (\<lambda>(name, val). name @ ''='' @ val) (range_EnvVars w))"
  using same_env_before_env [of c w]
  by (simp add: configure_fst same_env_def configureSecurity_def configureEnv_def)

text \<open>Only the environment step looks at the order in which the map is ranged over.\<close>

lemma before_network_range:
  "before_network (w\<lparr>range_EnvVars := es\<rparr>) c = before_network w c"
  by (simp add: before_network_def configureImage_def)

lemma configureNetwork_range:
  "configureNetwork (w\<lparr>range_EnvVars := es\<rparr>) c = configureNetwork w c"
  by (simp add: configureNetwork_def)

lemma before_env_range: "before_env (w\<lparr>range_EnvVars := es\<rparr>) c = before_env w c"
  by (simp add: before_env_def before_network_range configureNetwork_range)

lemma without_Env_configure:
  "without_Env (fst (configure w c)) = configureSecurity (without_Env (before_env w c))"
  by (simp add: configure_fst without_Env_def configureSecurity_def configureEnv_def)

lemma range_yields_mset:
  assumes "range_yields m es" and "range_yields m es'"
  shows "mset es = mset es'"
proof -
  from assms have d: "distinct (map fst es)" "distinct (map fst es')"
    and m: "map_of es = map_of es'"
    by (simp_all add: range_yields_def)
  then have "set es = set es'"
    by (simp add: map_of_inject_set)
  moreover from d have "distinct es" "distinct es'"
    by (simp_all add: distinct_map)
  ultimately show ?thesis
    by (simp add: set_eq_iff_mset_eq_distinct)
qed

subsection \<open>Network mode and hostname\<close>

lemma network_then_hostname:
  assumes "Hostname (opts c) = ''''"
  shows "NetworkMode (hostOpts (configureHostname (fst (configureNetwork w c)))) = '''' \<or>
         Hostname (opts (configureHostname (fst (configureNetwork w c)))) = ''''"
  using assms by (simp add: configureNetwork_def configureHostname_def Let_def)

text \<open>
  C9. Started on a cookie whose hostname is not set (as the cookie the driver builds), the
  whole configuration sequence, for every task, driver and allocator answers, never ends
  with both a network mode and a hostname set; and the hostname step leaves alone a cookie
  whose network mode is set.
\<close>

theorem configure_network_excludes_hostname:
  assumes "Hostname (opts c) = ''''"
  shows "\<not> (NetworkMode (hostOpts (fst (configure w c))) \<noteq> '''' \<and>
            Hostname (opts (fst (configure w c))) \<noteq> '''') \<and>
         (NetworkMode (hostOpts x) \<noteq> '''' \<longrightarrow> configureHostname x = x)"
proof -
  have "NetworkMode (hostOpts (configureHostname (fst (configureNetwork w c)))) = '''' \<or>
      Hostname (opts (configureHostname (fst (configureNetwork w c)))) = ''''"
    using assms by (rule network_then_hostname)
  moreover have "frame (configureHostname (fst (configureNetwork w c))) (fst (configure w c))"
    by (rule configure_frame)
  ultimately show ?thesis
    by (auto simp: frame_def configureHostname_def)
qed

text \<open>
  With a pool that grants \<open>pool-7\<close> the network mode is set and the hostname is not.
\<close>

theorem configure_network_excludes_hostname_witness:
  "Hostname (opts (new_cookie pooled_drv busy_task)) = '''' \<and>
   NetworkMode (hostOpts (fst (configure calm_world (new_cookie pooled_drv busy_task)))) =
     ''container:pool-7'' \<and>
   Hostname (opts (fst (configure calm_world (new_cookie pooled_drv busy_task)))) = ''''"
  using configure_network_excludes_hostname [of "new_cookie pooled_drv busy_task" calm_world]
    configure_frame [of calm_world "new_cookie pooled_drv busy_task"]
  by (simp add: frame_def configureNetwork_def configureHostname_def new_cookie_def busy_task_def
      pooled_drv_def calm_world_def Let_def)

text \<open>With no pool and no network granted the hostname is set and the network mode is not.\<close>

lemma configure_hostname_without_network:
  "NetworkMode (hostOpts (fst (configure (calm_world\<lparr>ans_AllocNetwork := ''''\<rparr>)
     (new_cookie bare_drv busy_task)))) = '''' \<and>
   Hostname (opts (fst (configure (calm_world\<lparr>ans_AllocNetwork := ''''\<rparr>)
     (new_cookie bare_drv busy_task)))) = ''runner-1''"
  using configure_frame [of "calm_world\<lparr>ans_AllocNetwork := ''''\<rparr>" "new_cookie bare_drv busy_task"]
  by (simp add: frame_def configureNetwork_def configureHostname_def new_cookie_def busy_task_def
      pooled_drv_def bare_drv_def calm_world_def Let_def)

subsection \<open>Determinism of the configuration\<close>

text \<open>
  C5, as amended. Two runs of the configuration sequence on the same cookie, with the same
  parser and the same allocator answers, in which \<open>range\<close> yields the entries of the
  environment map in two orders, make the same calls and give the same cookie but for the
  order of the environment entries: the two lists hold the same entries, each as often.
\<close>

theorem configure_same_up_to_env_order:
  assumes "range_yields (task_EnvVars (task c)) (range_EnvVars w)"
    and "range_yields (task_EnvVars (task c)) es"
  shows "snd (configure (w\<lparr>range_EnvVars := es\<rparr>) c) = snd (configure w c) \<and>
         without_Env (fst (configure (w\<lparr>range_EnvVars := es\<rparr>) c)) =
           without_Env (fst (configure w c)) \<and>
         mset (Env (opts (fst (configure (w\<lparr>range_EnvVars := es\<rparr>) c)))) =
           mset (Env (opts (fst (configure w c))))"
proof -
  have "mset es = mset (range_EnvVars w)"
    using assms by (blast intro: range_yields_mset)
  then have "mset (map (\<lambda>(name, val). name @ ''='' @ val) es) =
      mset (map (\<lambda>(name, val). name @ ''='' @ val) (range_EnvVars w))"
    by simp
  then have "mset (Env (opts (fst (configure (w\<lparr>range_EnvVars := es\<rparr>) c)))) =
      mset (Env (opts (fst (configure w c))))"
    by (simp add: configure_Env)
  then show ?thesis
    by (simp add: configure_snd without_Env_configure before_env_range before_network_range
        configureNetwork_range)
qed

theorem configure_same_up_to_env_order_witness:
  "mset (Env (opts (fst (configure
      (calm_world\<lparr>range_EnvVars := [(''B'', ''2''), (''A'', ''1'')]\<rparr>)
      (new_cookie bare_drv busy_task))))) = mset [''A=1'', ''B=2''] \<and>
   without_Env (fst (configure
      (calm_world\<lparr>range_EnvVars := [(''B'', ''2''), (''A'', ''1'')]\<rparr>)
      (new_cookie bare_drv busy_task))) =
     without_Env (fst (configure calm_world (new_cookie bare_drv busy_task)))"
  using configure_same_up_to_env_order [of "new_cookie bare_drv busy_task" calm_world
      "[(''B'', ''2''), (''A'', ''1'')]"]
  by (simp add: configure_Env range_yields_def busy_task_def new_cookie_def calm_world_def
      fun_upd_twist)

text \<open>
  C5 as stated fails: the task's environment map has the entries A=1 and B=2, \<open>range\<close> may
  yield them in either order, and the two runs give two different lists, of the whole
  sequence as of the environment step alone.
\<close>

theorem configure_env_order_differs:
  "range_yields (task_EnvVars busy_task) [(''A'', ''1''), (''B'', ''2'')] \<and>
   range_yields (task_EnvVars busy_task) [(''B'', ''2''), (''A'', ''1'')] \<and>
   Env (opts (fst (configure (calm_world\<lparr>range_EnvVars := [(''A'', ''1''), (''B'', ''2'')]\<rparr>)
     (new_cookie bare_drv busy_task)))) = [''A=1'', ''B=2''] \<and>
   Env (opts (fst (configure (calm_world\<lparr>range_EnvVars := [(''B'', ''2''), (''A'', ''1'')]\<rparr>)
     (new_cookie bare_drv busy_task)))) = [''B=2'', ''A=1''] \<and>
   Env (opts (configureEnv (calm_world\<lparr>range_EnvVars := [(''A'', ''1''), (''B'', ''2'')]\<rparr>)
     (new_cookie bare_drv busy_task))) = [''A=1'', ''B=2''] \<and>
   Env (opts (configureEnv (calm_world\<lparr>range_EnvVars := [(''B'', ''2''), (''A'', ''1'')]\<rparr>)
     (new_cookie bare_drv busy_task))) = [''B=2'', ''A=1'']"
  by (simp add: configure_Env configureEnv_def range_yields_def busy_task_def new_cookie_def
      fun_upd_twist)

subsection \<open>Validate, pull, create\<close>

lemma inspected_cookie_fields:
  "cookie_image inspected_cookie = Some busy_record"
  "containerCreated inspected_cookie = False"
  "poolId inspected_cookie = ''pool-7''" "netId inspected_cookie = ''''"
  "task inspected_cookie = busy_task" "drv inspected_cookie = pooled_drv"
  by (simp_all add: inspected_cookie_def busy_record_def ValidateImage_def configureNetwork_def
      new_cookie_def busy_inspect_def busy_task_def pooled_drv_def calm_world_def Let_def)

lemma ValidateImage_missing:
  "cookie_image c = None \<Longrightarrow>
   ValidateImage (Inl ErrNoSuchImage) c =
     ((True, None), c, [ImageInspectWithRaw (task_Image (task c))])"
  by (simp add: ValidateImage_def)

lemma PullImage_cookie: "fst (snd (PullImage a p c)) = c"
  by (simp add: PullImage_def authImage_def Let_def split: option.splits prod.splits)

lemma ValidateImage_ok_image:
  "cookie_image c = None \<Longrightarrow> fst (ValidateImage (Inr img) c) = (False, None) \<Longrightarrow>
   cookie_image (fst (snd (ValidateImage (Inr img) c))) \<noteq> None"
  by (simp add: ValidateImage_def Let_def)

text \<open>
  C1, as amended. On a cookie with no image record, ValidateImage against a runtime that
  reports the image missing returns (true, nil). A PullImage that then succeeds leaves the
  cookie without an image record, so that CreateContainer called on it ends the process
  at its image-not-validated check, whatever the runtime would answer. When ValidateImage
  is called again after the pull and returns (false, nil), CreateContainer on the cookie
  it leaves passes the check and, the runtime's create succeeding, returns nil.
\<close>

theorem validate_pull_validate_create:
  assumes "cookie_image c = None"
    and "fst (PullImage a p (fst (snd (ValidateImage (Inl ErrNoSuchImage) c)))) = None"
    and "c2 = fst (snd (PullImage a p (fst (snd (ValidateImage (Inl ErrNoSuchImage) c)))))"
    and "fst (ValidateImage (Inr img) c2) = (False, None)"
  shows "fst (ValidateImage (Inl ErrNoSuchImage) c) = (True, None) \<and>
         fst (CreateContainer ans c2) = Fatal \<and>
         fst (CreateContainer None (fst (snd (ValidateImage (Inr img) c2)))) = Returned None"
proof -
  have c2: "c2 = c"
    using assms(1,3) by (simp add: ValidateImage_missing PullImage_cookie)
  have "cookie_image (fst (snd (ValidateImage (Inr img) c2))) \<noteq> None"
    using assms(1,4) c2 by (simp add: ValidateImage_ok_image)
  then have "fst (CreateContainer None (fst (snd (ValidateImage (Inr img) c2)))) = Returned None"
    by (simp add: CreateContainer_def Let_def)
  moreover have "fst (CreateContainer ans c2) = Fatal"
    using assms(1) c2 by (simp add: CreateContainer_def)
  ultimately show ?thesis
    using assms(1) by (simp add: ValidateImage_missing)
qed

theorem validate_pull_validate_create_witness:
  "fst (CreateContainer None (fst (snd (ValidateImage (Inr busy_inspect)
     (new_cookie pooled_drv busy_task))))) = Returned None \<and>
   fst (CreateContainer None (new_cookie pooled_drv busy_task)) = Fatal"
  using validate_pull_validate_create [of "new_cookie pooled_drv busy_task" "(None, None)" None
      "new_cookie pooled_drv busy_task" busy_inspect None]
  by (simp add: ValidateImage_def PullImage_def authImage_def new_cookie_def busy_task_def
      busy_inspect_def pooled_drv_def plain_conf_def Let_def)

text \<open>
  C1 as stated fails: validate (image missing), a pull that succeeds, then create. The
  cookie is the same after the first two calls, and the third ends the process.
\<close>

theorem pull_does_not_validate:
  "fst (ValidateImage (Inl ErrNoSuchImage) (new_cookie pooled_drv busy_task)) = (True, None) \<and>
   fst (snd (ValidateImage (Inl ErrNoSuchImage) (new_cookie pooled_drv busy_task))) =
     new_cookie pooled_drv busy_task \<and>
   fst (PullImage (None, None) None (new_cookie pooled_drv busy_task)) = None \<and>
   fst (snd (PullImage (None, None) None (new_cookie pooled_drv busy_task))) =
     new_cookie pooled_drv busy_task \<and>
   fst (CreateContainer None (new_cookie pooled_drv busy_task)) = Fatal \<and>
   execs [OpValidateImage (Inl ErrNoSuchImage), OpPullImage (None, None) None,
          OpCreateContainer None] (new_cookie pooled_drv busy_task, []) = None"
  by (simp add: ValidateImage_def PullImage_def authImage_def CreateContainer_def
      new_cookie_def busy_task_def Let_def)

subsection \<open>The container-created flag\<close>

lemma ValidateImage_keeps:
  "opts (fst (snd (ValidateImage a c))) = opts c"
  "hostOpts (fst (snd (ValidateImage a c))) = hostOpts c"
  "task (fst (snd (ValidateImage a c))) = task c"
  "containerCreated (fst (snd (ValidateImage a c))) = containerCreated c"
  by (simp_all add: ValidateImage_def Let_def split: sum.splits)

lemma Close_calls:
  "Close a c =
     (if containerCreated c then a else None, c,
      (if containerCreated c then [RemoveContainer (task_Id (task c)) True True] else [])
        @ release_calls c)"
  by (simp add: Close_def release_calls_def Let_def)

lemma exec_create_issued:
  assumes "create_issued c0 c tr" and "exec x c = Some (c', calls)"
  shows "create_issued c0 c' (tr @ calls)"
proof (cases x)
  case (OpValidateImage a)
  with assms(2) have "c' = fst (snd (ValidateImage a c))"
    by simp
  with assms(1) show ?thesis
    by (simp add: create_issued_def ValidateImage_keeps)
next
  case (OpPullImage a p)
  with assms(2) have "c' = fst (snd (PullImage a p c))"
    by simp
  with assms(1) show ?thesis
    by (simp add: create_issued_def PullImage_cookie)
next
  case (OpCreateContainer a)
  with assms show ?thesis
    by (auto simp: create_issued_def CreateContainer_def Let_def split: if_splits)
next
  case (OpFreeze a)
  with assms show ?thesis
    by (auto simp: create_issued_def Freeze_def)
next
  case (OpUnfreeze a)
  with assms show ?thesis
    by (auto simp: create_issued_def Unfreeze_def)
next
  case (OpClose a)
  with assms(2) have "c' = fst (snd (Close a c))"
    by simp
  with assms(1) show ?thesis
    by (simp add: create_issued_def Close_calls)
qed

lemma execs_create_issued:
  "create_issued c0 c tr \<Longrightarrow> execs xs (c, tr) = Some (c', tr') \<Longrightarrow> create_issued c0 c' tr'"
proof (induction xs arbitrary: c tr)
  case Nil
  then show ?case by simp
next
  case (Cons x xs)
  from Cons.prems(2) obtain c1 calls where
    x: "exec x c = Some (c1, calls)" and rest: "execs xs (c1, tr @ calls) = Some (c', tr')"
    by (auto split: option.splits)
  from Cons.prems(1) x have "create_issued c0 c1 (tr @ calls)"
    by (rule exec_create_issued)
  then show ?case using rest by (rule Cons.IH)
qed

lemma inspected_cookie_created:
  "CreateContainer a inspected_cookie =
     (Returned (if a = Some ErrNoSuchImage then Some ErrCallTimeoutServerBusy else a),
      inspected_cookie\<lparr>containerCreated := True\<rparr>,
      [ContainerCreate (opts inspected_cookie) (hostOpts inspected_cookie) ''call-1''])"
  by (simp add: CreateContainer_def inspected_cookie_fields Let_def busy_task_def)

lemma failed_create_cookie_eq:
  "failed_create_cookie = inspected_cookie\<lparr>containerCreated := True\<rparr>"
  by (simp add: failed_create_cookie_def inspected_cookie_created)

text \<open>
  C2, as amended. Along every sequence of lifecycle calls on a cookie that starts with the
  flag unset, whenever the container-created flag is set, the runtime's create call with
  the cookie's options and the task's identifier has been made (the flag says that the
  call was made, not that it succeeded), and Close on that cookie first asks the runtime
  to remove the container of that identifier, forced and with its volumes, and returns
  what the runtime answers.
\<close>

theorem created_flag_follows_create_call:
  assumes "\<not> containerCreated c0"
    and "execs xs (c0, []) = Some (c, tr)"
    and "containerCreated c"
  shows "ContainerCreate (opts c0) (hostOpts c0) (task_Id (task c0)) \<in> set tr \<and>
         Close a c =
           (a, c, RemoveContainer (task_Id (task c0)) True True # release_calls c)"
proof -
  have "create_issued c0 c0 []"
    using assms(1) by (simp add: create_issued_def)
  then have "create_issued c0 c tr"
    using assms(2) by (rule execs_create_issued)
  with assms(3) show ?thesis
    by (simp add: create_issued_def Close_calls)
qed

theorem created_flag_follows_create_call_witness:
  "containerCreated (fst (the (execs [OpCreateContainer None] (inspected_cookie, [])))) \<and>
   snd (the (execs [OpCreateContainer None] (inspected_cookie, []))) =
     [ContainerCreate (opts inspected_cookie) (hostOpts inspected_cookie) ''call-1''] \<and>
   snd (snd (Close None (fst (the (execs [OpCreateContainer None] (inspected_cookie, [])))))) =
     [RemoveContainer ''call-1'' True True, FreePoolId ''pool-7'', MarkFree busy_record]"
  using created_flag_follows_create_call [of inspected_cookie "[OpCreateContainer None]"
      "inspected_cookie\<lparr>containerCreated := True\<rparr>"
      "[ContainerCreate (opts inspected_cookie) (hostOpts inspected_cookie) ''call-1'']" None]
  by (simp add: inspected_cookie_created release_calls_def inspected_cookie_fields
      busy_task_def pooled_drv_def)

text \<open>
  C2 as stated fails: the runtime answers the create call with an error, CreateContainer
  returns that error, and the flag is set.
\<close>

theorem created_flag_after_failed_create:
  "fst (CreateContainer (Some (OtherError ''no space left on device'')) inspected_cookie) =
     Returned (Some (OtherError ''no space left on device'')) \<and>
   containerCreated (fst (snd
     (CreateContainer (Some (OtherError ''no space left on device'')) inspected_cookie)))"
  by (simp add: inspected_cookie_created)

subsection \<open>Close after a failed create\<close>

text \<open>
  C3, as amended. When CreateContainer has returned an error, Close on the cookie it leaves
  makes the releases the cookie owed before the call (pool grant, network grant, cache
  claim), after first asking the runtime to remove the task's container, forced and with
  its volumes, since the flag is set once the create call has been made; and Close returns
  what the runtime answers to that removal.
\<close>

theorem close_after_failed_create:
  assumes "CreateContainer ans_create c = (Returned (Some e), c', tr)"
  shows "Close ans_remove c' =
           (ans_remove, c', RemoveContainer (task_Id (task c)) True True # release_calls c) \<and>
         release_calls c' = release_calls c"
  using assms
  by (auto simp: Close_calls release_calls_def CreateContainer_def Let_def split: if_splits)

theorem close_after_failed_create_witness:
  "Close None failed_create_cookie =
     (None, failed_create_cookie,
      [RemoveContainer ''call-1'' True True, FreePoolId ''pool-7'', MarkFree busy_record])"
  using close_after_failed_create [of "Some (OtherError ''no space left on device'')"
      inspected_cookie "OtherError ''no space left on device''" failed_create_cookie
      "[ContainerCreate (opts inspected_cookie) (hostOpts inspected_cookie) ''call-1'']" None]
  by (simp add: failed_create_cookie_eq inspected_cookie_created release_calls_def
      inspected_cookie_fields busy_task_def pooled_drv_def)

text \<open>
  C3 as stated fails: after the failed create the runtime has no such container, the
  removal fails, and Close returns the removal's error.
\<close>

theorem close_returns_removal_error:
  "fst (CreateContainer (Some (OtherError ''no space left on device'')) inspected_cookie) =
     Returned (Some (OtherError ''no space left on device'')) \<and>
   Close (Some (OtherError ''No such container: call-1'')) failed_create_cookie =
     (Some (OtherError ''No such container: call-1''), failed_create_cookie,
      [RemoveContainer ''call-1'' True True, FreePoolId ''pool-7'', MarkFree busy_record])"
  by (simp add: failed_create_cookie_eq Close_calls inspected_cookie_created release_calls_def
      inspected_cookie_fields busy_task_def pooled_drv_def)

subsection \<open>An image with a volume\<close>

text \<open>
  C4, as amended. On a cookie with no image record, when inspection succeeds, the image
  declares a volume and the driver forbids volumes, ValidateImage returns (false,
  ErrImageWithVolume), leaves the captured record on the cookie and, when the driver has
  an image cache, makes one Update call on it with that record, after the inspection and
  before it returns; a driver without a cache gets no such call.
\<close>

theorem validate_image_with_volume:
  assumes "cookie_image c = None"
    and "\<not> ImageEnableVolume (conf (drv c))"
    and "insp_Config img = Some cfg" and "img_Volumes cfg \<noteq> {}"
  shows "ValidateImage (Inr img) c =
     ((False, Some ErrImageWithVolume), c\<lparr>cookie_image := Some (captured img)\<rparr>,
      ImageInspectWithRaw (task_Image (task c)) #
        (if imgCache (drv c) then [Update (captured img)] else []))"
  using assms by (simp add: ValidateImage_def captured_def Let_def)

theorem validate_image_with_volume_witness:
  "ValidateImage (Inr volume_inspect) (new_cookie pooled_drv busy_task) =
     ((False, Some ErrImageWithVolume),
      (new_cookie pooled_drv busy_task)\<lparr>cookie_image := Some busy_record\<rparr>,
      [ImageInspectWithRaw ''busy:1'', Update busy_record])"
  using validate_image_with_volume [of "new_cookie pooled_drv busy_task" volume_inspect
      "\<lparr>img_Volumes = {''/data''}\<rparr>"]
  by (simp add: captured_def new_cookie_def busy_task_def pooled_drv_def plain_conf_def
      volume_inspect_def busy_inspect_def busy_record_def)

text \<open>
  C4 as stated fails for a driver that has no image cache: the error is returned and the
  record captured, and the inspection is the only call made.
\<close>

theorem validate_image_with_volume_no_cache:
  "ValidateImage (Inr volume_inspect) (new_cookie bare_drv busy_task) =
     ((False, Some ErrImageWithVolume),
      (new_cookie bare_drv busy_task)\<lparr>cookie_image := Some busy_record\<rparr>,
      [ImageInspectWithRaw ''busy:1''])"
  by (simp add: ValidateImage_def new_cookie_def busy_task_def pooled_drv_def bare_drv_def
      plain_conf_def volume_inspect_def busy_inspect_def busy_record_def Let_def)

subsection \<open>Close called twice\<close>

text \<open>
  C10. Close leaves the cookie as it found it: pool grant, network grant and image record
  are not cleared. A second Close therefore makes the very calls of the first: the
  removal of the container when the flag is set, then FreePoolId, FreeNetwork and
  MarkFree for whatever the cookie holds.
\<close>

theorem close_twice_releases_twice:
  "fst (snd (Close a1 c)) = c \<and>
   snd (snd (Close a2 (fst (snd (Close a1 c))))) = snd (snd (Close a1 c)) \<and>
   snd (snd (Close a1 c)) =
     (if containerCreated c then [RemoveContainer (task_Id (task c)) True True] else [])
       @ release_calls c"
  by (simp add: Close_calls)

theorem close_twice_releases_twice_witness:
  "snd (snd (Close None (fst (snd (Close None failed_create_cookie))))) =
     [RemoveContainer ''call-1'' True True, FreePoolId ''pool-7'', MarkFree busy_record]"
  using close_twice_releases_twice [of None failed_create_cookie None]
  by (simp add: failed_create_cookie_eq release_calls_def inspected_cookie_fields busy_task_def
      pooled_drv_def)

text \<open>The same for a cookie that holds a network grant and has created no container.\<close>

lemma close_twice_network_grant:
  "snd (snd (Close None networked_cookie)) = [FreeNetwork ''net-3'', MarkFree busy_record] \<and>
   snd (snd (Close None (fst (snd (Close None networked_cookie))))) =
     [FreeNetwork ''net-3'', MarkFree busy_record]"
  by (simp add: Close_calls release_calls_def networked_cookie_def ValidateImage_def
      configureNetwork_def new_cookie_def busy_inspect_def busy_task_def pooled_drv_def
      calm_world_def busy_record_def Let_def)

end
